theory Spec2Isabelle
  imports Main "HOL-Library.Word"
begin

section \<open>The arena of folly/memory/Arena-inl.h\<close>

text \<open>
  A shallow embedding of \<^verbatim>\<open>Arena<Alloc>::Block::allocate\<close>,
  \<^verbatim>\<open>Arena<Alloc>::allocateSlow\<close> and \<^verbatim>\<open>Arena<Alloc>::merge\<close>.
  Sizes are \<^verbatim>\<open>size_t\<close>, 64-bit unsigned words whose arithmetic wraps; a
  \<^verbatim>\<open>char*\<close> is a 64-bit address, \<^verbatim>\<open>nullptr\<close> the address 0. A C++ exception is
  a value of \<open>exn\<close>; every function returns its outcome together with the state
  it leaves behind, so that what a throwing call has mutated is visible.
\<close>

subsection \<open>Data\<close>

type_synonym size_t = "64 word"
type_synonym char_ptr = "64 word"

definition nullptr :: char_ptr where
  "nullptr = 0"

text \<open>
  \<^verbatim>\<open>std::bad_alloc\<close> is the one exception the arena throws by itself; a Backing
  Allocator may throw it too, or any other exception (named by a string).
\<close>

datatype exn = bad_alloc | other_exn string

text \<open>
  The constants of Arena.h that the functions use and that are not among the
  sources: \<^verbatim>\<open>sizeof(Block)\<close> (the header size) and the sentinel
  \<^verbatim>\<open>kNoSizeLimit\<close>. They are parameters of the model.
\<close>

record arena_consts =
  sizeofBlock :: size_t
  kNoSizeLimit :: size_t

text \<open>
  The Backing Allocator \<^verbatim>\<open>Alloc\<close>, an external collaborator with a state of its
  own: \<^verbatim>\<open>ArenaAllocatorTraits<Alloc>::goodSize\<close> and
  \<^verbatim>\<open>std::allocator_traits<Alloc>::allocate\<close>, which returns the address of the
  memory or throws.
\<close>

record 's Alloc =
  goodSize :: "size_t \<Rightarrow> size_t"
  allocate_raw :: "'s \<Rightarrow> size_t \<Rightarrow> (exn + char_ptr) \<times> 's"

text \<open>
  A Block is the list hook placed at the start of a chunk of backing memory; the
  intrusive list \<^verbatim>\<open>blocks_\<close> links blocks by their address \<open>this_ptr\<close>. The
  C++ keeps nothing else in a Block. The model also records, per block, the usable
  size that \<^verbatim>\<open>Block::allocate\<close> returned for it and whether the big branch of
  \<^verbatim>\<open>allocateSlow\<close> acquired it (bookkeeping only: no function reads either field).
\<close>

record Block =
  this_ptr :: char_ptr
  usable :: size_t
  big :: bool

text \<open>
  Modelled from the spec: \<^verbatim>\<open>Block::start()\<close> is declared in Arena.h, which is not
  among the sources. The spec has the header constructed in place at the start of
  the returned memory and the usable region right after it.
\<close>

definition start :: "arena_consts \<Rightarrow> char_ptr \<Rightarrow> char_ptr" where
  "start c this = this + sizeofBlock c"

record Arena =
  blocks :: "Block list"
  ptr :: char_ptr
  endp :: char_ptr
  totalAllocatedSize :: size_t
  sizeLimit :: size_t
  minBlockSize :: size_t

text \<open>
  Modelled from the spec: the constructor of Arena.h is not among the sources. A
  freshly constructed arena is empty: no block, \<open>ptr\<close> and \<open>end\<close> null, nothing
  accounted.
\<close>

definition Arena_init :: "size_t \<Rightarrow> size_t \<Rightarrow> Arena" where
  "Arena_init minBlockSz limit =
     \<lparr>blocks = [], ptr = nullptr, endp = nullptr, totalAllocatedSize = 0,
      sizeLimit = limit, minBlockSize = minBlockSz\<rparr>"

text \<open>
  Modelled from the spec: \<^verbatim>\<open>totalSize()\<close> is declared in Arena.h, which is not
  among the sources. The spec has it return the cumulative bytes acquired.
\<close>

definition totalSize :: "Arena \<Rightarrow> size_t" where
  "totalSize a = totalAllocatedSize a"

subsection \<open>Overflow-checked addition\<close>

text \<open>
  Modelled from the spec: \<^verbatim>\<open>checked_add\<close> (folly/lang/CheckedMath.h) is not among
  the sources. It returns the validated sum, or signals overflow (here \<open>None\<close>),
  and never wraps.
\<close>

definition checked_add :: "size_t \<Rightarrow> size_t \<Rightarrow> size_t option" where
  "checked_add a b = (if unat a + unat b < 2 ^ 64 then Some (a + b) else None)"

subsection \<open>Block::allocate\<close>

definition Block_allocate ::
  "arena_consts \<Rightarrow> 's Alloc \<Rightarrow> 's \<Rightarrow> size_t \<Rightarrow> bool \<Rightarrow> (exn + (char_ptr \<times> size_t)) \<times> 's" where
  "Block_allocate c al st sz allowSlack =
     (let allocSize0 = sizeofBlock c + sz;
          allocSize = (if allowSlack then goodSize al allocSize0 else allocSize0)
      in case allocate_raw al st allocSize of
           (Inl e, st') \<Rightarrow> (Inl e, st')
         | (Inr mem, st') \<Rightarrow> (Inr (mem, allocSize - sizeofBlock c), st'))"

subsection \<open>Arena::allocateSlow\<close>

text \<open>
  The outcome is the thrown exception or the returned pointer; with it come the
  arena and the allocator state as the call leaves them. The two exceptions of the
  checks are thrown before \<^verbatim>\<open>Block::allocate\<close> is called, and an exception of
  \<^verbatim>\<open>Block::allocate\<close> leaves before the first assignment to a member. The
  \<^verbatim>\<open>assert(p.second >= size)\<close> is compiled out under \<^verbatim>\<open>NDEBUG\<close> and has no branch
  here.
\<close>

definition allocateSlow ::
  "arena_consts \<Rightarrow> 's Alloc \<Rightarrow> Arena \<Rightarrow> 's \<Rightarrow> size_t \<Rightarrow> (exn + char_ptr) \<times> Arena \<times> 's" where
  "allocateSlow c al a st sz =
     (case checked_add (max sz (minBlockSize a)) (sizeofBlock c) of
        None \<Rightarrow> (Inl bad_alloc, a, st)
      | Some allocSize \<Rightarrow>
          if sizeLimit a \<noteq> kNoSizeLimit c \<and> allocSize > sizeLimit a - totalAllocatedSize a
          then (Inl bad_alloc, a, st)
          else if sz > minBlockSize a then
            (case Block_allocate c al st sz False of
               (Inl e, st') \<Rightarrow> (Inl e, a, st')
             | (Inr (p1, p2), st') \<Rightarrow>
                 let a1 = a\<lparr>blocks := blocks a @ [\<lparr>this_ptr = p1, usable = p2, big = True\<rparr>]\<rparr>;
                     a2 = a1\<lparr>totalAllocatedSize := totalAllocatedSize a1 + (p2 + sizeofBlock c)\<rparr>
                 in (Inr (start c p1), a2, st'))
          else
            (case Block_allocate c al st (minBlockSize a) True of
               (Inl e, st') \<Rightarrow> (Inl e, a, st')
             | (Inr (p1, p2), st') \<Rightarrow>
                 let a1 = a\<lparr>blocks := \<lparr>this_ptr = p1, usable = p2, big = False\<rparr> # blocks a\<rparr>;
                     a2 = a1\<lparr>ptr := start c p1 + sz\<rparr>;
                     a3 = a2\<lparr>endp := start c p1 + p2\<rparr>;
                     a4 = a3\<lparr>totalAllocatedSize := totalAllocatedSize a3 + (p2 + sizeofBlock c)\<rparr>
                 in (Inr (start c p1), a4, st')))"

subsection \<open>Arena::allocate\<close>

text \<open>
  Modelled from the spec: \<^verbatim>\<open>allocate\<close> is defined in Arena.h, which is not among
  the sources. The spec's fast path: if \<open>ptr\<close> is not null and \<open>end - ptr >= size\<close>,
  return \<open>ptr\<close> and advance it by \<open>size\<close>; otherwise enter the slow path.
\<close>

definition allocate ::
  "arena_consts \<Rightarrow> 's Alloc \<Rightarrow> Arena \<Rightarrow> 's \<Rightarrow> size_t \<Rightarrow> (exn + char_ptr) \<times> Arena \<times> 's" where
  "allocate c al a st sz =
     (if ptr a \<noteq> nullptr \<and> endp a - ptr a \<ge> sz
      then (Inr (ptr a), a\<lparr>ptr := ptr a + sz\<rparr>, st)
      else allocateSlow c al a st sz)"

text \<open>A sequence of calls on one arena; a call that throws is caught by the caller.\<close>

fun allocate_all ::
  "arena_consts \<Rightarrow> 's Alloc \<Rightarrow> Arena \<Rightarrow> 's \<Rightarrow> size_t list \<Rightarrow> Arena \<times> 's" where
  "allocate_all c al a st [] = (a, st)"
| "allocate_all c al a st (n # ns) =
     (case allocate c al a st n of (r, a', st') \<Rightarrow> allocate_all c al a' st' ns)"

subsection \<open>Arena::merge\<close>

text \<open>
  \<^verbatim>\<open>slist::splice_after(before_begin(), other)\<close> moves every element of the other
  list in front of this one and leaves the other list empty; \<^verbatim>\<open>clear()\<close> unlinks
  what the list still holds. Neither calls a disposer.
\<close>

definition splice_after_before_begin :: "'a list \<Rightarrow> 'a list \<Rightarrow> 'a list \<times> 'a list" where
  "splice_after_before_begin this other = (other @ this, [])"

definition clear :: "'a list \<Rightarrow> 'a list" where
  "clear xs = []"

text \<open>The result is the pair of this arena and the other, as the call leaves them.\<close>

definition merge :: "Arena \<Rightarrow> Arena \<Rightarrow> Arena \<times> Arena" where
  "merge a other =
     (case splice_after_before_begin (blocks a) (blocks other) of
        (bs, obs) \<Rightarrow>
          let a1 = a\<lparr>blocks := bs\<rparr>;
              o1 = other\<lparr>blocks := clear obs\<rparr>;
              o2 = o1\<lparr>endp := nullptr\<rparr>;
              o3 = o2\<lparr>ptr := endp o2\<rparr>;
              a2 = a1\<lparr>totalAllocatedSize := totalAllocatedSize a1 + totalAllocatedSize o3\<rparr>;
              o4 = o3\<lparr>totalAllocatedSize := 0\<rparr>
          in (a2, o4))"

subsection \<open>Predicates of the specification\<close>

text \<open>
  The two guards at the head of \<^verbatim>\<open>allocateSlow\<close>, taken together: the checked
  addition does not overflow, and the limit test does not fire.
\<close>

definition passes_checks :: "arena_consts \<Rightarrow> Arena \<Rightarrow> size_t \<Rightarrow> bool" where
  "passes_checks c a sz =
     (case checked_add (max sz (minBlockSize a)) (sizeofBlock c) of
        None \<Rightarrow> False
      | Some allocSize \<Rightarrow>
          \<not> (sizeLimit a \<noteq> kNoSizeLimit c \<and> allocSize > sizeLimit a - totalAllocatedSize a))"

text \<open>
  The bump window \<open>ptr\<close>/\<open>end\<close> describes a block when \<open>end\<close> is the end of the
  block's usable region and \<open>ptr\<close> lies in that region, at an offset of at most
  the usable size from its start.
\<close>

definition describes :: "arena_consts \<Rightarrow> Arena \<Rightarrow> Block \<Rightarrow> bool" where
  "describes c a b \<longleftrightarrow>
     endp a = start c (this_ptr b) + usable b \<and> ptr a - start c (this_ptr b) \<le> usable b"

text \<open>A non-null window describes the front element of the list, a normal block.\<close>

definition window_at_front :: "arena_consts \<Rightarrow> Arena \<Rightarrow> bool" where
  "window_at_front c a \<longleftrightarrow>
     (ptr a \<noteq> nullptr \<or> endp a \<noteq> nullptr \<longrightarrow>
        (case blocks a of [] \<Rightarrow> False | b # bs \<Rightarrow> \<not> big b \<and> describes c a b))"

text \<open>A non-null window describes some normal block of the list.\<close>

definition window_in_normal_block :: "arena_consts \<Rightarrow> Arena \<Rightarrow> bool" where
  "window_in_normal_block c a \<longleftrightarrow>
     (ptr a \<noteq> nullptr \<or> endp a \<noteq> nullptr \<longrightarrow>
        (\<exists>b \<in> set (blocks a). \<not> big b \<and> describes c a b))"

text \<open>
  The arenas that calls of \<^verbatim>\<open>allocate\<close> alone produce from a freshly
  constructed one, whatever the state of the Backing Allocator at each call and
  whether the call returns or throws.
\<close>

inductive reachable_by_allocate :: "arena_consts \<Rightarrow> 's Alloc \<Rightarrow> Arena \<Rightarrow> bool"
  for c :: arena_consts and al :: "'s Alloc" where
  fresh: "reachable_by_allocate c al (Arena_init m l)"
| step: "reachable_by_allocate c al a \<Longrightarrow> allocate c al a st n = (r, a', st') \<Longrightarrow>
         reachable_by_allocate c al a'"

text \<open>The arenas that calls of \<^verbatim>\<open>allocate\<close> and \<^verbatim>\<open>merge\<close> produce.\<close>

inductive reachable :: "arena_consts \<Rightarrow> 's Alloc \<Rightarrow> Arena \<Rightarrow> bool"
  for c :: arena_consts and al :: "'s Alloc" where
  fresh: "reachable c al (Arena_init m l)"
| step: "reachable c al a \<Longrightarrow> allocate c al a st n = (r, a', st') \<Longrightarrow> reachable c al a'"
| merge_this: "reachable c al a \<Longrightarrow> reachable c al b \<Longrightarrow> merge a b = (a', b') \<Longrightarrow>
               reachable c al a'"
| merge_other: "reachable c al a \<Longrightarrow> reachable c al b \<Longrightarrow> merge a b = (a', b') \<Longrightarrow>
                reachable c al b'"

subsection \<open>Example instances\<close>

text \<open>
  Two layouts: the header of 16 bytes of the spec's scenario, and a header that is
  one list pointer of 8 bytes; \<^verbatim>\<open>kNoSizeLimit\<close> is 0 in both.
\<close>

definition consts16 :: arena_consts where
  "consts16 = \<lparr>sizeofBlock = 16, kNoSizeLimit = 0\<rparr>"

definition consts8 :: arena_consts where
  "consts8 = \<lparr>sizeofBlock = 8, kNoSizeLimit = 0\<rparr>"

text \<open>
  Three Backing Allocators whose state is the next free address (or a call
  counter): one that hands out consecutive memory with no slack, one whose
  smallest size class is 64 bytes, and one that is exhausted.
\<close>

definition bump_alloc :: "size_t Alloc" where
  "bump_alloc = \<lparr>goodSize = (\<lambda>n. n), allocate_raw = (\<lambda>st n. (Inr st, st + n))\<rparr>"

definition slack_alloc :: "size_t Alloc" where
  "slack_alloc =
     \<lparr>goodSize = (\<lambda>n. if n \<le> 64 then 64 else n),
      allocate_raw = (\<lambda>st n. (Inr st, st + n))\<rparr>"

definition failing_alloc :: "size_t Alloc" where
  "failing_alloc =
     \<lparr>goodSize = (\<lambda>n. n),
      allocate_raw = (\<lambda>st n. (Inl (other_exn ''out_of_memory''), st + 1))\<rparr>"

section \<open>Auxiliary facts\<close>

subsection \<open>Word arithmetic\<close>

lemma len64: "(2::nat) ^ LENGTH(64) = 2 ^ 64"
  by simp

lemma word_room_add:
  fixes t x l :: size_t
  assumes "t \<le> l" and "x \<le> l - t"
  shows "unat (t + x) = unat t + unat x \<and> t + x \<le> l"
proof -
  have tl: "unat t \<le> unat l" using assms(1) by (simp only: word_le_nat_alt)
  have "unat (l - t) = unat l - unat t" using assms(1) by (rule unat_sub)
  with assms(2) have x: "unat x \<le> unat l - unat t" by (simp only: word_le_nat_alt)
  have "unat l < 2 ^ LENGTH(64)" by (rule unsigned_less)
  with tl x have "unat t + unat x < 2 ^ LENGTH(64)" by linarith
  then have eq: "unat (t + x) = unat t + unat x" by (simp only: unat_add_lem)
  with tl x have le: "unat (t + x) \<le> unat l" by linarith
  have "t + x \<le> l" using le by (simp only: word_le_nat_alt)
  with eq show ?thesis by (rule conjI)
qed

lemma word_bump_within:
  fixes off n u :: size_t
  assumes "off \<le> u" and "n \<le> u - off"
  shows "off + n \<le> u"
  using word_room_add [OF assms] by (rule conjunct2)

lemma word_usable_ge:
  fixes g h m :: size_t
  assumes "unat m + unat h < 2 ^ 64" and "unat (h + m) \<le> unat g"
  shows "m \<le> g - h"
proof -
  have "unat h + unat m < 2 ^ 64" using assms(1) by (simp only: add.commute)
  then have "unat h + unat m < 2 ^ LENGTH(64)" by (simp only: len64)
  then have hm: "unat (h + m) = unat h + unat m" by (simp only: unat_add_lem)
  with assms(2) have "unat h \<le> unat g" by linarith
  then have "h \<le> g" by (simp only: word_le_nat_alt)
  then have "unat (g - h) = unat g - unat h" by (rule unat_sub)
  with hm assms(2) have "unat m \<le> unat (g - h)" by linarith
  then show ?thesis by (simp only: word_le_nat_alt)
qed

subsection \<open>The paths of allocateSlow\<close>

lemma Block_allocate_exact:
  "Block_allocate c al st sz False =
     (case allocate_raw al st (sizeofBlock c + sz) of
        (Inl e, st') \<Rightarrow> (Inl e, st')
      | (Inr mem, st') \<Rightarrow> (Inr (mem, sz), st'))"
  by (simp add: Block_allocate_def Let_def split: prod.splits sum.splits)

lemma Block_allocate_slack:
  "Block_allocate c al st sz True =
     (case allocate_raw al st (goodSize al (sizeofBlock c + sz)) of
        (Inl e, st') \<Rightarrow> (Inl e, st')
      | (Inr mem, st') \<Rightarrow> (Inr (mem, goodSize al (sizeofBlock c + sz) - sizeofBlock c), st'))"
  by (simp add: Block_allocate_def Let_def)

lemma allocateSlow_fails_eq:
  assumes "\<not> passes_checks c a sz"
  shows "allocateSlow c al a st sz = (Inl bad_alloc, a, st)"
  using assms
  by (auto simp: allocateSlow_def passes_checks_def split: option.splits)

lemma allocateSlow_big_eq:
  assumes "passes_checks c a sz" and "minBlockSize a < sz"
  shows "allocateSlow c al a st sz =
     (case allocate_raw al st (sizeofBlock c + sz) of
        (Inl e, st') \<Rightarrow> (Inl e, a, st')
      | (Inr mem, st') \<Rightarrow>
          (Inr (start c mem),
           a\<lparr>blocks := blocks a @ [\<lparr>this_ptr = mem, usable = sz, big = True\<rparr>],
             totalAllocatedSize := totalAllocatedSize a + (sz + sizeofBlock c)\<rparr>, st'))"
  using assms
  by (auto simp: allocateSlow_def passes_checks_def Block_allocate_exact Let_def
           split: option.splits prod.splits sum.splits)

lemma allocateSlow_normal_eq:
  assumes "passes_checks c a sz" and "sz \<le> minBlockSize a"
  shows "allocateSlow c al a st sz =
     (case allocate_raw al st (goodSize al (sizeofBlock c + minBlockSize a)) of
        (Inl e, st') \<Rightarrow> (Inl e, a, st')
      | (Inr mem, st') \<Rightarrow>
          (Inr (start c mem),
           a\<lparr>blocks := \<lparr>this_ptr = mem,
                           usable = goodSize al (sizeofBlock c + minBlockSize a) - sizeofBlock c,
                           big = False\<rparr> # blocks a,
             ptr := start c mem + sz,
             endp := start c mem + (goodSize al (sizeofBlock c + minBlockSize a) - sizeofBlock c),
             totalAllocatedSize := totalAllocatedSize a +
               (goodSize al (sizeofBlock c + minBlockSize a) - sizeofBlock c + sizeofBlock c)\<rparr>,
           st'))"
  using assms
  by (auto simp: allocateSlow_def passes_checks_def Block_allocate_slack Let_def
           split: option.splits prod.splits sum.splits)

lemma allocate_fast:
  "ptr a \<noteq> nullptr \<Longrightarrow> n \<le> endp a - ptr a \<Longrightarrow>
   allocate c al a st n = (Inr (ptr a), a\<lparr>ptr := ptr a + n\<rparr>, st)"
  by (simp add: allocate_def)

lemma merge_eq:
  "merge a b =
     (a\<lparr>blocks := blocks b @ blocks a,
        totalAllocatedSize := totalAllocatedSize a + totalAllocatedSize b\<rparr>,
      Arena_init (minBlockSize b) (sizeLimit b))"
  by (simp add: merge_def splice_after_before_begin_def clear_def Let_def Arena_init_def)

lemmas fixture_defs =
  consts16_def consts8_def bump_alloc_def slack_alloc_def failing_alloc_def
  Arena_init_def nullptr_def start_def totalSize_def

lemma allocateSlow_cases [case_names fail big normal]:
  obtains e s' where "allocateSlow c al a st sz = (Inl e, a, s')"
  | mem s' where "minBlockSize a < sz" and "passes_checks c a sz"
      and "allocateSlow c al a st sz =
        (Inr (start c mem),
         a\<lparr>blocks := blocks a @ [\<lparr>this_ptr = mem, usable = sz, big = True\<rparr>],
           totalAllocatedSize := totalAllocatedSize a + (sz + sizeofBlock c)\<rparr>, s')"
  | mem s' where "sz \<le> minBlockSize a" and "passes_checks c a sz"
      and "allocateSlow c al a st sz =
        (Inr (start c mem),
         a\<lparr>blocks := \<lparr>this_ptr = mem,
                         usable = goodSize al (sizeofBlock c + minBlockSize a) - sizeofBlock c,
                         big = False\<rparr> # blocks a,
           ptr := start c mem + sz,
           endp := start c mem + (goodSize al (sizeofBlock c + minBlockSize a) - sizeofBlock c),
           totalAllocatedSize := totalAllocatedSize a +
             (goodSize al (sizeofBlock c + minBlockSize a) - sizeofBlock c + sizeofBlock c)\<rparr>,
         s')"
proof (cases "passes_checks c a sz")
  case False
  then have "allocateSlow c al a st sz = (Inl bad_alloc, a, st)"
    by (rule allocateSlow_fails_eq)
  then show ?thesis by (rule that(1))
next
  case pass: True
  show ?thesis
  proof (cases "minBlockSize a < sz")
    case True
    show ?thesis
    proof (cases "allocate_raw al st (sizeofBlock c + sz)")
      case (Pair r s')
      show ?thesis
      proof (cases r)
        case (Inl e)
        with Pair pass True have "allocateSlow c al a st sz = (Inl e, a, s')"
          by (simp add: allocateSlow_big_eq)
        then show ?thesis by (rule that(1))
      next
        case (Inr mem)
        with Pair pass True show ?thesis
          by (intro that(2) [of mem s']) (simp_all add: allocateSlow_big_eq)
      qed
    qed
  next
    case False
    then have le: "sz \<le> minBlockSize a" by simp
    show ?thesis
    proof (cases "allocate_raw al st (goodSize al (sizeofBlock c + minBlockSize a))")
      case (Pair r s')
      show ?thesis
      proof (cases r)
        case (Inl e)
        with Pair pass le have "allocateSlow c al a st sz = (Inl e, a, s')"
          by (simp add: allocateSlow_normal_eq)
        then show ?thesis by (rule that(1))
      next
        case (Inr mem)
        with Pair pass le show ?thesis
          by (intro that(3) [of mem s']) (simp_all add: allocateSlow_normal_eq)
      qed
    qed
  qed
qed

lemma passes_checks_room:
  assumes "passes_checks c a sz"
  shows "unat (max sz (minBlockSize a)) + unat (sizeofBlock c) < 2 ^ 64"
  using assms by (simp add: passes_checks_def checked_add_def split: if_splits)

lemma passes_checks_limit:
  assumes "passes_checks c a sz" and "sizeLimit a \<noteq> kNoSizeLimit c"
  shows "max sz (minBlockSize a) + sizeofBlock c \<le> sizeLimit a - totalAllocatedSize a"
  using assms by (simp add: passes_checks_def checked_add_def not_less split: if_splits)

subsection \<open>Accounting against the limit\<close>

lemma allocateSlow_accounts:
  assumes fin: "sizeLimit a \<noteq> kNoSizeLimit c"
    and inv: "totalAllocatedSize a \<le> sizeLimit a"
    and noslack: "goodSize al (sizeofBlock c + minBlockSize a) = sizeofBlock c + minBlockSize a"
    and res: "allocateSlow c al a st sz = (Inr p, a', st')"
  shows "unat (totalAllocatedSize a') =
           unat (totalAllocatedSize a) + unat (max sz (minBlockSize a) + sizeofBlock c)"
    and "totalAllocatedSize a' \<le> sizeLimit a"
    and "totalAllocatedSize a' = totalAllocatedSize a + (max sz (minBlockSize a) + sizeofBlock c)"
    and "sizeLimit a' = sizeLimit a" and "minBlockSize a' = minBlockSize a"
proof -
  have pass: "passes_checks c a sz"
  proof (rule ccontr)
    assume "\<not> passes_checks c a sz"
    from allocateSlow_fails_eq [OF this, of al st] res show False by simp
  qed
  have room: "max sz (minBlockSize a) + sizeofBlock c \<le> sizeLimit a - totalAllocatedSize a"
    using pass fin by (rule passes_checks_limit)
  have upd: "totalAllocatedSize a' = totalAllocatedSize a + (max sz (minBlockSize a) + sizeofBlock c)
      \<and> sizeLimit a' = sizeLimit a \<and> minBlockSize a' = minBlockSize a"
  proof (cases rule: allocateSlow_cases [of c al a st sz])
    case (fail e s')
    with res show ?thesis by simp
  next
    case (big mem s')
    from big(1) have "minBlockSize a \<le> sz" by simp
    then have "max sz (minBlockSize a) = sz" by (rule max_absorb1)
    with big(3) res show ?thesis by auto
  next
    case (normal mem s')
    from normal(1) have "max sz (minBlockSize a) = minBlockSize a" by (rule max_absorb2)
    with normal(3) res show ?thesis by (auto simp: noslack)
  qed
  then show "totalAllocatedSize a' = totalAllocatedSize a + (max sz (minBlockSize a) + sizeofBlock c)"
    and "sizeLimit a' = sizeLimit a" and "minBlockSize a' = minBlockSize a"
    by blast+
  from word_room_add [OF inv room] upd
  show "unat (totalAllocatedSize a') =
           unat (totalAllocatedSize a) + unat (max sz (minBlockSize a) + sizeofBlock c)"
    and "totalAllocatedSize a' \<le> sizeLimit a"
    by simp_all
qed

lemma allocate_within_limit:
  assumes fin: "sizeLimit a \<noteq> kNoSizeLimit c"
    and inv: "totalAllocatedSize a \<le> sizeLimit a"
    and noslack: "goodSize al (sizeofBlock c + minBlockSize a) = sizeofBlock c + minBlockSize a"
    and res: "allocate c al a st n = (r, a', st')"
  shows "totalAllocatedSize a' \<le> sizeLimit a \<and>
         sizeLimit a' = sizeLimit a \<and> minBlockSize a' = minBlockSize a"
proof (cases "ptr a \<noteq> nullptr \<and> n \<le> endp a - ptr a")
  case True
  with res inv show ?thesis by (auto simp: allocate_def)
next
  case False
  with res have slow: "allocateSlow c al a st n = (r, a', st')"
    by (auto simp: allocate_def)
  show ?thesis
  proof (cases r)
    case (Inl e)
    have "a' = a"
      using slow by (cases rule: allocateSlow_cases [of c al a st n]) (simp_all add: Inl)
    with inv show ?thesis by simp
  next
    case (Inr p)
    with slow have "allocateSlow c al a st n = (Inr p, a', st')" by simp
    from allocateSlow_accounts(2,4,5) [OF fin inv noslack this] show ?thesis by simp
  qed
qed

lemma allocate_all_within_limit:
  assumes "sizeLimit a \<noteq> kNoSizeLimit c"
    and "totalAllocatedSize a \<le> sizeLimit a"
    and "goodSize al (sizeofBlock c + minBlockSize a) = sizeofBlock c + minBlockSize a"
  shows "totalAllocatedSize (fst (allocate_all c al a st ns)) \<le> sizeLimit a"
  using assms
proof (induction ns arbitrary: a st)
  case Nil
  then show ?case by simp
next
  case (Cons n ns)
  obtain r a' st' where res: "allocate c al a st n = (r, a', st')"
    by (cases "allocate c al a st n") auto
  from allocate_within_limit [OF Cons.prems res]
  have a': "totalAllocatedSize a' \<le> sizeLimit a" "sizeLimit a' = sizeLimit a"
    "minBlockSize a' = minBlockSize a" by simp_all
  have "totalAllocatedSize (fst (allocate_all c al a' st' ns)) \<le> sizeLimit a'"
    using Cons.prems a' by (intro Cons.IH) simp_all
  with res a' show ?case by simp
qed

subsection \<open>The bump window\<close>

lemma describes_bump:
  assumes d: "describes c a b" and n: "n \<le> endp a - ptr a"
  shows "describes c (a\<lparr>ptr := ptr a + n\<rparr>) b"
proof -
  from d have e: "endp a = start c (this_ptr b) + usable b"
    and off: "ptr a - start c (this_ptr b) \<le> usable b"
    by (simp_all add: describes_def)
  have "endp a - ptr a = usable b - (ptr a - start c (this_ptr b))"
    by (simp add: e)
  with n have "n \<le> usable b - (ptr a - start c (this_ptr b))" by simp
  with off have le: "ptr a - start c (this_ptr b) + n \<le> usable b"
    by (rule word_bump_within)
  have eq: "ptr a + n - start c (this_ptr b) = ptr a - start c (this_ptr b) + n"
    by simp
  have "ptr a + n - start c (this_ptr b) \<le> usable b"
    using le by (simp only: eq)
  with e show ?thesis by (simp add: describes_def)
qed

lemma normal_block_fits:
  assumes contract: "\<forall>n. unat n \<le> unat (goodSize al n)"
    and pass: "passes_checks c a sz" and le: "sz \<le> minBlockSize a"
  shows "sz \<le> goodSize al (sizeofBlock c + minBlockSize a) - sizeofBlock c"
proof -
  from le have "max sz (minBlockSize a) = minBlockSize a" by (rule max_absorb2)
  with passes_checks_room [OF pass]
  have "unat (minBlockSize a) + unat (sizeofBlock c) < 2 ^ 64" by simp
  moreover from contract
  have "unat (sizeofBlock c + minBlockSize a) \<le> unat (goodSize al (sizeofBlock c + minBlockSize a))"
    by blast
  ultimately have "minBlockSize a \<le> goodSize al (sizeofBlock c + minBlockSize a) - sizeofBlock c"
    by (rule word_usable_ge)
  with le show ?thesis by (rule order_trans)
qed

text \<open>
  The \<^verbatim>\<open>assert(p.second >= size)\<close> at the end of \<^verbatim>\<open>allocateSlow\<close> holds on
  every returning path when \<open>goodSize\<close> returns at least what it is asked for.
\<close>

lemma allocateSlow_assertion:
  assumes contract: "\<forall>n. unat n \<le> unat (goodSize al n)"
    and res: "allocateSlow c al a st sz = (Inr p, a', st')"
  shows "\<exists>b. (blocks a' = blocks a @ [b] \<or> blocks a' = b # blocks a) \<and> sz \<le> usable b"
proof (cases rule: allocateSlow_cases [of c al a st sz])
  case (fail e s')
  with res show ?thesis by simp
next
  case (big mem s')
  with res show ?thesis by auto
next
  case (normal mem s')
  from normal_block_fits [OF contract normal(2) normal(1)] normal(3) res show ?thesis
    by auto
qed

lemma allocate_cases [case_names fast fail big normal]:
  assumes "allocate c al a st n = (r, a', st')"
  obtains "ptr a \<noteq> nullptr" and "n \<le> endp a - ptr a" and "a' = a\<lparr>ptr := ptr a + n\<rparr>"
  | "a' = a"
  | mem where "a' = a\<lparr>blocks := blocks a @ [\<lparr>this_ptr = mem, usable = n, big = True\<rparr>],
           totalAllocatedSize := totalAllocatedSize a + (n + sizeofBlock c)\<rparr>"
  | mem where "n \<le> minBlockSize a" and "passes_checks c a n"
      and "a' = a\<lparr>blocks := \<lparr>this_ptr = mem,
                         usable = goodSize al (sizeofBlock c + minBlockSize a) - sizeofBlock c,
                         big = False\<rparr> # blocks a,
           ptr := start c mem + n,
           endp := start c mem + (goodSize al (sizeofBlock c + minBlockSize a) - sizeofBlock c),
           totalAllocatedSize := totalAllocatedSize a +
             (goodSize al (sizeofBlock c + minBlockSize a) - sizeofBlock c + sizeofBlock c)\<rparr>"
proof (cases "ptr a \<noteq> nullptr \<and> n \<le> endp a - ptr a")
  case True
  with assms have "a' = a\<lparr>ptr := ptr a + n\<rparr>" by (auto simp: allocate_def)
  with True show ?thesis by (intro that(1)) simp_all
next
  case False
  with assms have slow: "allocateSlow c al a st n = (r, a', st')"
    by (auto simp: allocate_def)
  show ?thesis
  proof (cases rule: allocateSlow_cases [of c al a st n])
    case (fail e s')
    with slow have "a' = a" by simp
    then show ?thesis by (rule that(2))
  next
    case (big mem s')
    with slow show ?thesis by (intro that(3) [of mem]) simp
  next
    case (normal mem s')
    with slow show ?thesis by (intro that(4) [of mem]) simp_all
  qed
qed

lemma allocate_window_at_front:
  assumes contract: "\<forall>n. unat n \<le> unat (goodSize al n)"
    and inv: "window_at_front c a"
    and res: "allocate c al a st n = (r, a', st')"
  shows "window_at_front c a'"
  using res
proof (cases rule: allocate_cases)
  case fast
  from fast(1) inv obtain b bs where bs: "blocks a = b # bs" and nb: "\<not> big b"
    and d: "describes c a b"
    by (auto simp: window_at_front_def split: list.splits)
  from describes_bump [OF d fast(2)] bs nb fast(3) show ?thesis
    by (simp add: window_at_front_def)
next
  case fail
  with inv show ?thesis by simp
next
  case (big mem)
  with inv show ?thesis
    by (auto simp: window_at_front_def describes_def split: list.splits)
next
  case (normal mem)
  from normal_block_fits [OF contract normal(2) normal(1)] normal(3) show ?thesis
    by (simp add: window_at_front_def describes_def)
qed

lemma allocate_window_in_normal_block:
  assumes contract: "\<forall>n. unat n \<le> unat (goodSize al n)"
    and inv: "window_in_normal_block c a"
    and res: "allocate c al a st n = (r, a', st')"
  shows "window_in_normal_block c a'"
  using res
proof (cases rule: allocate_cases)
  case fast
  from fast(1) inv obtain b where b: "b \<in> set (blocks a)" and nb: "\<not> big b"
    and d: "describes c a b"
    by (auto simp: window_in_normal_block_def)
  from describes_bump [OF d fast(2)] b nb fast(3) show ?thesis
    by (auto simp: window_in_normal_block_def)
next
  case fail
  with inv show ?thesis by simp
next
  case (big mem)
  with inv show ?thesis
    by (auto simp: window_in_normal_block_def describes_def)
next
  case (normal mem)
  from normal_block_fits [OF contract normal(2) normal(1)] normal(3) show ?thesis
    by (simp add: window_in_normal_block_def describes_def)
qed

lemma merge_window_in_normal_block:
  assumes "window_in_normal_block c a" and "merge a b = (a', b')"
  shows "window_in_normal_block c a'" and "window_in_normal_block c b'"
  using assms
  by (auto simp: merge_eq window_in_normal_block_def describes_def Arena_init_def)

lemma reachable_by_allocate_front:
  assumes "\<forall>n. unat n \<le> unat (goodSize al n)" and "reachable_by_allocate c al a"
  shows "window_at_front c a"
  using assms(2)
proof (induction rule: reachable_by_allocate.induct)
  case (fresh m l)
  show ?case by (simp add: window_at_front_def Arena_init_def)
next
  case (step a st n r a' st')
  from assms(1) step.IH step.hyps(2) show ?case by (rule allocate_window_at_front)
qed

lemma reachable_window:
  assumes "\<forall>n. unat n \<le> unat (goodSize al n)" and "reachable c al a"
  shows "window_in_normal_block c a"
  using assms(2)
proof (induction rule: reachable.induct)
  case (fresh m l)
  show ?case by (simp add: window_in_normal_block_def Arena_init_def)
next
  case (step a st n r a' st')
  from assms(1) step.IH step.hyps(2) show ?case by (rule allocate_window_in_normal_block)
next
  case (merge_this a b a' b')
  from merge_this.IH(1) merge_this.hyps(3) show ?case
    by (rule merge_window_in_normal_block(1))
next
  case (merge_other a b a' b')
  from merge_other.IH(1) merge_other.hyps(3) show ?case
    by (rule merge_window_in_normal_block(2))
qed

section \<open>The claims\<close>

text \<open>
  C1, as the code has it. On an arena with a finite \<open>sizeLimit\<close> whose accounted
  usage is within the limit, and with a Backing Allocator that adds no slack to a
  standard block, \<open>totalAllocatedSize\<close> stays within \<open>sizeLimit\<close> through any
  sequence of \<open>allocate\<close> calls. A slow-path call that returns has accounted exactly
  \<open>allocSize = max(size, minBlockSize) + sizeof(Block)\<close> bytes. With
  \<open>sizeLimit = L\<close> and usage \<open>L - 10\<close>, a request whose \<open>allocSize\<close> is at most 10
  passes both checks, and one whose \<open>allocSize\<close> is exactly 10 leaves
  \<open>totalSize()\<close> at exactly \<open>L\<close> when it returns.
\<close>

theorem limit_respected_without_slack:
  assumes "sizeLimit a \<noteq> kNoSizeLimit c"
    and "totalAllocatedSize a \<le> sizeLimit a"
    and "goodSize al (sizeofBlock c + minBlockSize a) = sizeofBlock c + minBlockSize a"
  shows "totalAllocatedSize (fst (allocate_all c al a st ns)) \<le> sizeLimit a \<and>
         (\<forall>sz p a' st'. allocateSlow c al a st sz = (Inr p, a', st') \<longrightarrow>
            unat (totalSize a') =
              unat (totalSize a) + unat (max sz (minBlockSize a)) + unat (sizeofBlock c) \<and>
            totalSize a' \<le> sizeLimit a) \<and>
         (\<forall>sz. 10 \<le> sizeLimit a \<and> totalSize a = sizeLimit a - 10 \<and>
            unat (max sz (minBlockSize a)) + unat (sizeofBlock c) \<le> 10 \<longrightarrow>
            passes_checks c a sz) \<and>
         (\<forall>sz p a' st'. 10 \<le> sizeLimit a \<and> totalSize a = sizeLimit a - 10 \<and>
            unat (max sz (minBlockSize a)) + unat (sizeofBlock c) = 10 \<and>
            allocateSlow c al a st sz = (Inr p, a', st') \<longrightarrow>
            totalSize a' = sizeLimit a)"
proof (intro conjI allI impI)
  show "totalAllocatedSize (fst (allocate_all c al a st ns)) \<le> sizeLimit a"
    using assms by (rule allocate_all_within_limit)
next
  fix sz p a' st'
  assume res: "allocateSlow c al a st sz = (Inr p, a', st')"
  have pass: "passes_checks c a sz"
  proof (rule ccontr)
    assume "\<not> passes_checks c a sz"
    from allocateSlow_fails_eq [OF this, of al st] res show False by simp
  qed
  have "unat (max sz (minBlockSize a)) + unat (sizeofBlock c) < 2 ^ LENGTH(64)"
    using passes_checks_room [OF pass] by (simp only: len64)
  then have "unat (max sz (minBlockSize a) + sizeofBlock c) =
      unat (max sz (minBlockSize a)) + unat (sizeofBlock c)"
    by (simp only: unat_add_lem)
  with allocateSlow_accounts(1) [OF assms res]
  show "unat (totalSize a') =
      unat (totalSize a) + unat (max sz (minBlockSize a)) + unat (sizeofBlock c)"
    by (simp add: totalSize_def)
  from allocateSlow_accounts(2) [OF assms res]
  show "totalSize a' \<le> sizeLimit a" by (simp add: totalSize_def)
next
  fix sz
  assume h: "10 \<le> sizeLimit a \<and> totalSize a = sizeLimit a - 10 \<and>
    unat (max sz (minBlockSize a)) + unat (sizeofBlock c) \<le> 10"
  then have small: "unat (max sz (minBlockSize a)) + unat (sizeofBlock c) < 2 ^ LENGTH(64)"
    by simp
  then have u: "unat (max sz (minBlockSize a) + sizeofBlock c) =
      unat (max sz (minBlockSize a)) + unat (sizeofBlock c)"
    by (simp only: unat_add_lem)
  have "sizeLimit a - totalAllocatedSize a = 10"
    using h by (simp add: totalSize_def)
  moreover have "max sz (minBlockSize a) + sizeofBlock c \<le> 10"
    using h u by (simp add: word_le_nat_alt)
  ultimately show "passes_checks c a sz"
    using small by (simp add: passes_checks_def checked_add_def not_less)
next
  fix sz p a' st'
  assume h: "10 \<le> sizeLimit a \<and> totalSize a = sizeLimit a - 10 \<and>
    unat (max sz (minBlockSize a)) + unat (sizeofBlock c) = 10 \<and>
    allocateSlow c al a st sz = (Inr p, a', st')"
  then have res: "allocateSlow c al a st sz = (Inr p, a', st')" by simp
  from h have sum10: "unat (max sz (minBlockSize a)) + unat (sizeofBlock c) = 10"
    by simp
  then have "unat (max sz (minBlockSize a)) + unat (sizeofBlock c) < 2 ^ LENGTH(64)"
    by simp
  then have "unat (max sz (minBlockSize a) + sizeofBlock c) =
      unat (max sz (minBlockSize a)) + unat (sizeofBlock c)"
    by (simp only: unat_add_lem)
  with sum10 have "unat (max sz (minBlockSize a) + sizeofBlock c) = 10"
    by linarith
  then have "unat (max sz (minBlockSize a) + sizeofBlock c) = unat (10 :: size_t)"
    by simp
  then have ten: "max sz (minBlockSize a) + sizeofBlock c = 10"
    by (simp only: word_unat_eq_iff)
  from allocateSlow_accounts(3) [OF assms res] h ten
  show "totalSize a' = sizeLimit a" by (simp add: totalSize_def)
qed

theorem limit_respected_without_slack_witness:
  "sizeLimit \<lparr>blocks = [\<lparr>this_ptr = 4096, usable = 82, big = True\<rparr>], ptr = 0, endp = 0,
       totalAllocatedSize = 90, sizeLimit = 100, minBlockSize = 2\<rparr> \<noteq> kNoSizeLimit consts8 \<and>
   (90 :: size_t) \<le> 100 \<and>
   goodSize bump_alloc (sizeofBlock consts8 + 2) = sizeofBlock consts8 + 2 \<and>
   allocate consts8 bump_alloc (Arena_init 2 100) 4096 82
     = (Inr 4104,
        \<lparr>blocks = [\<lparr>this_ptr = 4096, usable = 82, big = True\<rparr>], ptr = 0, endp = 0,
           totalAllocatedSize = 90, sizeLimit = 100, minBlockSize = 2\<rparr>, 4186) \<and>
   totalAllocatedSize (fst (allocate_all consts8 bump_alloc
       \<lparr>blocks = [\<lparr>this_ptr = 4096, usable = 82, big = True\<rparr>], ptr = 0, endp = 0,
          totalAllocatedSize = 90, sizeLimit = 100, minBlockSize = 2\<rparr> 4186 [1, 1, 1])) \<le> 100 \<and>
   passes_checks consts8
       \<lparr>blocks = [\<lparr>this_ptr = 4096, usable = 82, big = True\<rparr>], ptr = 0, endp = 0,
          totalAllocatedSize = 90, sizeLimit = 100, minBlockSize = 2\<rparr> 1 \<and>
   allocateSlow consts8 bump_alloc
       \<lparr>blocks = [\<lparr>this_ptr = 4096, usable = 82, big = True\<rparr>], ptr = 0, endp = 0,
          totalAllocatedSize = 90, sizeLimit = 100, minBlockSize = 2\<rparr> 4186 1
     = (Inr 4194,
        \<lparr>blocks = [\<lparr>this_ptr = 4186, usable = 2, big = False\<rparr>,
                    \<lparr>this_ptr = 4096, usable = 82, big = True\<rparr>], ptr = 4195, endp = 4196,
           totalAllocatedSize = 100, sizeLimit = 100, minBlockSize = 2\<rparr>, 4196) \<and>
   totalSize (fst (snd (allocateSlow consts8 bump_alloc
       \<lparr>blocks = [\<lparr>this_ptr = 4096, usable = 82, big = True\<rparr>], ptr = 0, endp = 0,
          totalAllocatedSize = 90, sizeLimit = 100, minBlockSize = 2\<rparr> 4186 1))) = 100"
proof -
  let ?a = "\<lparr>blocks = [\<lparr>this_ptr = 4096, usable = 82, big = True\<rparr>], ptr = 0, endp = 0,
          totalAllocatedSize = 90, sizeLimit = 100, minBlockSize = 2\<rparr>"
  let ?a' = "\<lparr>blocks = [\<lparr>this_ptr = 4186, usable = 2, big = False\<rparr>,
                    \<lparr>this_ptr = 4096, usable = 82, big = True\<rparr>], ptr = 4195, endp = 4196,
           totalAllocatedSize = 100, sizeLimit = 100, minBlockSize = 2\<rparr>"
  have fin: "sizeLimit ?a \<noteq> kNoSizeLimit consts8"
    by (simp add: consts8_def)
  have inv: "totalAllocatedSize ?a \<le> sizeLimit ?a"
    by simp
  have noslack: "goodSize bump_alloc (sizeofBlock consts8 + minBlockSize ?a)
      = sizeofBlock consts8 + minBlockSize ?a"
    by (simp add: bump_alloc_def)
  note T = limit_respected_without_slack [OF fin inv noslack, of 4186 "[1, 1, 1]"]
  have first: "allocate consts8 bump_alloc (Arena_init 2 100) 4096 82 = (Inr 4104, ?a, 4186)"
    by (simp add: allocate_def allocateSlow_def Block_allocate_def checked_add_def fixture_defs)
  have slow: "allocateSlow consts8 bump_alloc ?a 4186 1 = (Inr 4194, ?a', 4196)"
    by (simp add: allocateSlow_def Block_allocate_def checked_add_def fixture_defs)
  have ten: "10 \<le> sizeLimit ?a \<and> totalSize ?a = sizeLimit ?a - 10 \<and>
      unat (max 1 (minBlockSize ?a)) + unat (sizeofBlock consts8) = 10"
    by (simp add: totalSize_def consts8_def)
  from T have "totalAllocatedSize (fst (allocate_all consts8 bump_alloc ?a 4186 [1, 1, 1]))
      \<le> sizeLimit ?a"
    by (rule conjunct1)
  then have seq: "totalAllocatedSize (fst (allocate_all consts8 bump_alloc ?a 4186 [1, 1, 1]))
      \<le> 100"
    by simp
  from T ten have pass: "passes_checks consts8 ?a 1"
    by (metis order_refl)
  from T ten slow have "totalSize ?a' = sizeLimit ?a"
    by blast
  then have exact: "totalSize (fst (snd (allocateSlow consts8 bump_alloc ?a 4186 1))) = 100"
    by (simp add: slow)
  from fin noslack first seq pass slow exact show ?thesis
    by simp
qed

text \<open>
  C1, as the claim states it, fails twice. With a Backing Allocator whose smallest
  size class is 64 bytes, the first allocation on an arena of limit 60 succeeds
  and accounts 64 bytes. With no slack, limit 100 and usage 90, a request whose
  new block needs 9 bytes succeeds and leaves the total at 99, not 100.
\<close>

theorem limit_counterexample:
  "sizeLimit (Arena_init 40 60) \<noteq> kNoSizeLimit consts8 \<and>
   allocate consts8 slack_alloc (Arena_init 40 60) 4096 10
     = (Inr 4104,
        \<lparr>blocks = [\<lparr>this_ptr = 4096, usable = 56, big = False\<rparr>], ptr = 4114, endp = 4160,
           totalAllocatedSize = 64, sizeLimit = 60, minBlockSize = 40\<rparr>, 4160) \<and>
   \<not> totalAllocatedSize (fst (snd (allocate consts8 slack_alloc (Arena_init 40 60) 4096 10)))
       \<le> sizeLimit (fst (snd (allocate consts8 slack_alloc (Arena_init 40 60) 4096 10))) \<and>
   allocate consts8 bump_alloc (Arena_init 1 100) 4096 82
     = (Inr 4104,
        \<lparr>blocks = [\<lparr>this_ptr = 4096, usable = 82, big = True\<rparr>], ptr = 0, endp = 0,
           totalAllocatedSize = 90, sizeLimit = 100, minBlockSize = 1\<rparr>, 4186) \<and>
   checked_add (max 1 1) (sizeofBlock consts8) = Some 9 \<and>
   allocate consts8 bump_alloc
       \<lparr>blocks = [\<lparr>this_ptr = 4096, usable = 82, big = True\<rparr>], ptr = 0, endp = 0,
          totalAllocatedSize = 90, sizeLimit = 100, minBlockSize = 1\<rparr> 4186 1
     = (Inr 4194,
        \<lparr>blocks = [\<lparr>this_ptr = 4186, usable = 1, big = False\<rparr>,
                    \<lparr>this_ptr = 4096, usable = 82, big = True\<rparr>], ptr = 4195, endp = 4195,
           totalAllocatedSize = 99, sizeLimit = 100, minBlockSize = 1\<rparr>, 4195) \<and>
   totalSize (fst (snd (allocate consts8 bump_alloc
       \<lparr>blocks = [\<lparr>this_ptr = 4096, usable = 82, big = True\<rparr>], ptr = 0, endp = 0,
          totalAllocatedSize = 90, sizeLimit = 100, minBlockSize = 1\<rparr> 4186 1))) \<noteq> 100"
  by (simp add: allocate_def allocateSlow_def Block_allocate_def checked_add_def fixture_defs)

text \<open>
  C2, as the code has it. Given a Backing Allocator whose \<open>goodSize\<close> returns at
  least what it is asked for: in every arena that calls of \<open>allocate\<close> alone
  produce from a fresh one, a non-null \<open>ptr\<close>/\<open>end\<close> describes the front element of
  the block list, which is a normal block; in every arena that calls of \<open>allocate\<close>
  and \<open>merge\<close> produce, a non-null \<open>ptr\<close>/\<open>end\<close> describes a normal block of the
  list, never an oversized one.
\<close>

theorem window_describes_normal_block:
  assumes "\<forall>n. unat n \<le> unat (goodSize al n)"
  shows "(reachable_by_allocate c al a \<longrightarrow> window_at_front c a) \<and>
         (reachable c al a \<longrightarrow> window_in_normal_block c a)"
  using assms by (blast intro: reachable_by_allocate_front reachable_window)

theorem window_describes_normal_block_witness:
  "(\<forall>n. unat n \<le> unat (goodSize slack_alloc n)) \<and>
   reachable_by_allocate consts16 slack_alloc
     \<lparr>blocks = [\<lparr>this_ptr = 4096, usable = 48, big = False\<rparr>], ptr = 4122, endp = 4160,
        totalAllocatedSize = 64, sizeLimit = 0, minBlockSize = 40\<rparr> \<and>
   window_at_front consts16
     \<lparr>blocks = [\<lparr>this_ptr = 4096, usable = 48, big = False\<rparr>], ptr = 4122, endp = 4160,
        totalAllocatedSize = 64, sizeLimit = 0, minBlockSize = 40\<rparr> \<and>
   reachable consts16 slack_alloc
     \<lparr>blocks = [\<lparr>this_ptr = 4160, usable = 48, big = False\<rparr>,
                 \<lparr>this_ptr = 4096, usable = 48, big = False\<rparr>], ptr = 4122, endp = 4160,
        totalAllocatedSize = 128, sizeLimit = 0, minBlockSize = 40\<rparr> \<and>
   window_in_normal_block consts16
     \<lparr>blocks = [\<lparr>this_ptr = 4160, usable = 48, big = False\<rparr>,
                 \<lparr>this_ptr = 4096, usable = 48, big = False\<rparr>], ptr = 4122, endp = 4160,
        totalAllocatedSize = 128, sizeLimit = 0, minBlockSize = 40\<rparr>"
proof -
  have contract: "\<forall>n. unat n \<le> unat (goodSize slack_alloc n)"
    by (simp add: slack_alloc_def word_le_nat_alt)
  have A: "allocate consts16 slack_alloc (Arena_init 40 0) 4096 10
      = (Inr 4112,
         \<lparr>blocks = [\<lparr>this_ptr = 4096, usable = 48, big = False\<rparr>], ptr = 4122, endp = 4160,
            totalAllocatedSize = 64, sizeLimit = 0, minBlockSize = 40\<rparr>, 4160)"
    by (simp add: allocate_def allocateSlow_def Block_allocate_def checked_add_def fixture_defs)
  have B: "allocate consts16 slack_alloc (Arena_init 40 0) 4160 10
      = (Inr 4176,
         \<lparr>blocks = [\<lparr>this_ptr = 4160, usable = 48, big = False\<rparr>], ptr = 4186, endp = 4224,
            totalAllocatedSize = 64, sizeLimit = 0, minBlockSize = 40\<rparr>, 4224)"
    by (simp add: allocate_def allocateSlow_def Block_allocate_def checked_add_def fixture_defs)
  have M: "merge
       \<lparr>blocks = [\<lparr>this_ptr = 4096, usable = 48, big = False\<rparr>], ptr = 4122, endp = 4160,
          totalAllocatedSize = 64, sizeLimit = 0, minBlockSize = 40\<rparr>
       \<lparr>blocks = [\<lparr>this_ptr = 4160, usable = 48, big = False\<rparr>], ptr = 4186, endp = 4224,
          totalAllocatedSize = 64, sizeLimit = 0, minBlockSize = 40\<rparr>
     = (\<lparr>blocks = [\<lparr>this_ptr = 4160, usable = 48, big = False\<rparr>,
                     \<lparr>this_ptr = 4096, usable = 48, big = False\<rparr>], ptr = 4122, endp = 4160,
          totalAllocatedSize = 128, sizeLimit = 0, minBlockSize = 40\<rparr>, Arena_init 40 0)"
    by (simp add: merge_eq)
  have rA: "reachable_by_allocate consts16 slack_alloc
     \<lparr>blocks = [\<lparr>this_ptr = 4096, usable = 48, big = False\<rparr>], ptr = 4122, endp = 4160,
        totalAllocatedSize = 64, sizeLimit = 0, minBlockSize = 40\<rparr>"
    by (rule reachable_by_allocate.step [OF reachable_by_allocate.fresh A])
  have rM: "reachable consts16 slack_alloc
     \<lparr>blocks = [\<lparr>this_ptr = 4160, usable = 48, big = False\<rparr>,
                 \<lparr>this_ptr = 4096, usable = 48, big = False\<rparr>], ptr = 4122, endp = 4160,
        totalAllocatedSize = 128, sizeLimit = 0, minBlockSize = 40\<rparr>"
    by (rule reachable.merge_this
          [OF reachable.step [OF reachable.fresh A] reachable.step [OF reachable.fresh B] M])
  from window_describes_normal_block [OF contract] rA rM contract show ?thesis
    by blast
qed

text \<open>
  C2, as the claim states it, fails after a merge: two arenas each acquire one
  normal block, and after \<open>A.merge(B)\<close> the front element of A's list is B's block
  while A's \<open>ptr\<close>/\<open>end\<close> still describe A's own block, now second in the list.
\<close>

theorem window_after_merge_counterexample:
  "allocate consts16 bump_alloc (Arena_init 4096 0) 4096 10
     = (Inr 4112,
        \<lparr>blocks = [\<lparr>this_ptr = 4096, usable = 4096, big = False\<rparr>], ptr = 4122, endp = 8208,
           totalAllocatedSize = 4112, sizeLimit = 0, minBlockSize = 4096\<rparr>, 8208) \<and>
   allocate consts16 bump_alloc (Arena_init 4096 0) 8208 10
     = (Inr 8224,
        \<lparr>blocks = [\<lparr>this_ptr = 8208, usable = 4096, big = False\<rparr>], ptr = 8234, endp = 12320,
           totalAllocatedSize = 4112, sizeLimit = 0, minBlockSize = 4096\<rparr>, 12320) \<and>
   merge
       \<lparr>blocks = [\<lparr>this_ptr = 4096, usable = 4096, big = False\<rparr>], ptr = 4122, endp = 8208,
          totalAllocatedSize = 4112, sizeLimit = 0, minBlockSize = 4096\<rparr>
       \<lparr>blocks = [\<lparr>this_ptr = 8208, usable = 4096, big = False\<rparr>], ptr = 8234, endp = 12320,
          totalAllocatedSize = 4112, sizeLimit = 0, minBlockSize = 4096\<rparr>
     = (\<lparr>blocks = [\<lparr>this_ptr = 8208, usable = 4096, big = False\<rparr>,
                     \<lparr>this_ptr = 4096, usable = 4096, big = False\<rparr>], ptr = 4122, endp = 8208,
          totalAllocatedSize = 8224, sizeLimit = 0, minBlockSize = 4096\<rparr>, Arena_init 4096 0) \<and>
   (4122 :: char_ptr) \<noteq> nullptr \<and>
   \<not> describes consts16
       \<lparr>blocks = [\<lparr>this_ptr = 8208, usable = 4096, big = False\<rparr>,
                   \<lparr>this_ptr = 4096, usable = 4096, big = False\<rparr>], ptr = 4122, endp = 8208,
          totalAllocatedSize = 8224, sizeLimit = 0, minBlockSize = 4096\<rparr>
       \<lparr>this_ptr = 8208, usable = 4096, big = False\<rparr> \<and>
   \<not> window_at_front consts16
       \<lparr>blocks = [\<lparr>this_ptr = 8208, usable = 4096, big = False\<rparr>,
                   \<lparr>this_ptr = 4096, usable = 4096, big = False\<rparr>], ptr = 4122, endp = 8208,
          totalAllocatedSize = 8224, sizeLimit = 0, minBlockSize = 4096\<rparr>"
  by (simp add: allocate_def allocateSlow_def Block_allocate_def checked_add_def merge_eq
        describes_def window_at_front_def fixture_defs)

text \<open>
  C3. A request with \<open>size > minBlockSize\<close> that passes both checks, and that the
  Backing Allocator serves, asks the allocator for exactly \<open>sizeof(Block) + size\<close>
  bytes (\<open>goodSize\<close> is not consulted), links the new block, of usable size
  \<open>size\<close>, at the back of the list and changes nothing else but
  \<open>totalAllocatedSize\<close>: \<open>ptr\<close> and \<open>end\<close> are as before. A small request that the
  fast path served from the window before the big allocation is served from it
  after the big allocation, at the same address.
\<close>

theorem allocateSlow_big:
  assumes "minBlockSize a < sz" and "passes_checks c a sz"
    and "allocate_raw al st (sizeofBlock c + sz) = (Inr mem, st')"
  shows "allocateSlow c al a st sz =
           (Inr (start c mem),
            a\<lparr>blocks := blocks a @ [\<lparr>this_ptr = mem, usable = sz, big = True\<rparr>],
              totalAllocatedSize := totalAllocatedSize a + (sz + sizeofBlock c)\<rparr>, st') \<and>
         ptr (fst (snd (allocateSlow c al a st sz))) = ptr a \<and>
         endp (fst (snd (allocateSlow c al a st sz))) = endp a \<and>
         (\<forall>n s. ptr a \<noteq> nullptr \<and> n \<le> endp a - ptr a \<longrightarrow>
            fst (allocate c al (fst (snd (allocateSlow c al a st sz))) s n) = Inr (ptr a) \<and>
            fst (allocate c al (fst (snd (allocateSlow c al a st sz))) s n)
              = fst (allocate c al a s n) \<and>
            ptr (fst (snd (allocate c al (fst (snd (allocateSlow c al a st sz))) s n)))
              = ptr a + n \<and>
            endp (fst (snd (allocate c al (fst (snd (allocateSlow c al a st sz))) s n)))
              = endp a)"
  using assms by (simp add: allocateSlow_big_eq allocate_fast)

theorem allocateSlow_big_witness:
  "minBlockSize (fst (snd (allocate consts16 slack_alloc (Arena_init 4096 0) 4096 100))) < 5000 \<and>
   passes_checks consts16
     (fst (snd (allocate consts16 slack_alloc (Arena_init 4096 0) 4096 100))) 5000 \<and>
   allocate_raw slack_alloc 8208 (sizeofBlock consts16 + 5000) = (Inr 8208, 13224) \<and>
   allocateSlow consts16 slack_alloc
     (fst (snd (allocate consts16 slack_alloc (Arena_init 4096 0) 4096 100))) 8208 5000
   = (Inr 8224,
      \<lparr>blocks = [\<lparr>this_ptr = 4096, usable = 4096, big = False\<rparr>,
                  \<lparr>this_ptr = 8208, usable = 5000, big = True\<rparr>],
        ptr = 4212, endp = 8208, totalAllocatedSize = 9128, sizeLimit = 0,
        minBlockSize = 4096\<rparr>, 13224) \<and>
   fst (allocate consts16 slack_alloc
     (fst (snd (allocateSlow consts16 slack_alloc
        (fst (snd (allocate consts16 slack_alloc (Arena_init 4096 0) 4096 100))) 8208 5000)))
     13224 50) = Inr 4212"
  using allocateSlow_big
    [of "fst (snd (allocate consts16 slack_alloc (Arena_init 4096 0) 4096 100))" 5000
        consts16 slack_alloc 8208 8208 13224]
  by (simp add: passes_checks_def checked_add_def allocate_def allocateSlow_def
        Block_allocate_def fixture_defs)

text \<open>
  C4. After \<open>A.merge(B)\<close>, A's block list is B's former list followed by A's
  former list, \<open>A.totalSize()\<close> is the (\<^verbatim>\<open>size_t\<close>) sum of the two former totals,
  and B is the empty arena: no block, \<open>ptr\<close> and \<open>end\<close> null, nothing accounted,
  \<open>B.totalSize()\<close> zero. Every block B owned is in A's list, and \<open>merge\<close> has no
  access to the Backing Allocator, so that nothing is disposed of.
\<close>

theorem merge_splices_and_resets:
  "blocks (fst (merge a b)) = blocks b @ blocks a \<and>
   set (blocks (fst (merge a b))) = set (blocks a) \<union> set (blocks b) \<and>
   totalAllocatedSize (fst (merge a b)) = totalAllocatedSize a + totalAllocatedSize b \<and>
   totalSize (fst (merge a b)) = totalSize a + totalSize b \<and>
   snd (merge a b) = b\<lparr>blocks := [], ptr := nullptr, endp := nullptr, totalAllocatedSize := 0\<rparr> \<and>
   snd (merge a b) = Arena_init (minBlockSize b) (sizeLimit b) \<and>
   totalAllocatedSize (snd (merge a b)) = 0 \<and>
   totalSize (snd (merge a b)) = 0"
  by (auto simp: merge_eq totalSize_def Arena_init_def)

theorem merge_splices_and_resets_witness:
  "merge
     \<lparr>blocks = [\<lparr>this_ptr = 4096, usable = 4096, big = False\<rparr>], ptr = 4212, endp = 8208,
        totalAllocatedSize = 4112, sizeLimit = 0, minBlockSize = 4096\<rparr>
     \<lparr>blocks = [\<lparr>this_ptr = 8208, usable = 4096, big = False\<rparr>,
                  \<lparr>this_ptr = 12320, usable = 5000, big = True\<rparr>], ptr = 8234, endp = 12320,
        totalAllocatedSize = 9128, sizeLimit = 0, minBlockSize = 4096\<rparr>
   = (\<lparr>blocks = [\<lparr>this_ptr = 8208, usable = 4096, big = False\<rparr>,
                   \<lparr>this_ptr = 12320, usable = 5000, big = True\<rparr>,
                   \<lparr>this_ptr = 4096, usable = 4096, big = False\<rparr>], ptr = 4212, endp = 8208,
        totalAllocatedSize = 13240, sizeLimit = 0, minBlockSize = 4096\<rparr>,
      \<lparr>blocks = [], ptr = 0, endp = 0,
        totalAllocatedSize = 0, sizeLimit = 0, minBlockSize = 4096\<rparr>)"
  using merge_splices_and_resets
    [of "\<lparr>blocks = [\<lparr>this_ptr = 4096, usable = 4096, big = False\<rparr>], ptr = 4212, endp = 8208,
          totalAllocatedSize = 4112, sizeLimit = 0, minBlockSize = 4096\<rparr>"
        "\<lparr>blocks = [\<lparr>this_ptr = 8208, usable = 4096, big = False\<rparr>,
                  \<lparr>this_ptr = 12320, usable = 5000, big = True\<rparr>], ptr = 8234, endp = 12320,
          totalAllocatedSize = 9128, sizeLimit = 0, minBlockSize = 4096\<rparr>"]
  by (simp add: merge_eq Arena_init_def totalSize_def nullptr_def)

text \<open>
  C5. The slow path adds the header size to \<open>max(size, minBlockSize)\<close> with the
  overflow-checked addition. When the sum does not fit in \<^verbatim>\<open>size_t\<close>, the call
  throws (the code's exception for this failure is \<^verbatim>\<open>std::bad_alloc\<close>) before any
  call of the Backing Allocator, whose state is untouched whatever allocator it is,
  and \<open>totalSize()\<close>, \<open>ptr\<close>, \<open>end\<close> and the block list are as before the call.
\<close>

theorem allocateSlow_overflow:
  assumes "2 ^ 64 \<le> unat (max sz (minBlockSize a)) + unat (sizeofBlock c)"
  shows "checked_add (max sz (minBlockSize a)) (sizeofBlock c) = None \<and>
         allocateSlow c al a st sz = (Inl bad_alloc, a, st) \<and>
         totalSize (fst (snd (allocateSlow c al a st sz))) = totalSize a \<and>
         ptr (fst (snd (allocateSlow c al a st sz))) = ptr a \<and>
         endp (fst (snd (allocateSlow c al a st sz))) = endp a \<and>
         blocks (fst (snd (allocateSlow c al a st sz))) = blocks a"
  using assms by (simp add: allocateSlow_def checked_add_def)

theorem allocateSlow_overflow_witness:
  "2 ^ 64 \<le> unat (max 18446744073709551615 (minBlockSize (Arena_init 4096 0)))
             + unat (sizeofBlock consts16) \<and>
   allocateSlow consts16 failing_alloc (Arena_init 4096 0) 7 18446744073709551615
     = (Inl bad_alloc, Arena_init 4096 0, 7)"
  using allocateSlow_overflow
    [of 18446744073709551615 "Arena_init 4096 0" consts16 failing_alloc 7]
  by (simp add: Arena_init_def consts16_def)




text \<open>
  C7. A request with \<open>size <= minBlockSize\<close> that reaches the slow path, passes
  both checks, and that the Backing Allocator serves, asks the allocator for
  \<open>goodSize(sizeof(Block) + minBlockSize)\<close> bytes and links the new block at the
  front of the list. Afterwards \<open>ptr = blockStart + size\<close>,
  \<open>end = blockStart + usableSize\<close>, \<open>totalAllocatedSize\<close> has grown by
  \<open>usableSize + sizeof(Block)\<close> (a \<^verbatim>\<open>size_t\<close> addition), and the call returns
  \<open>blockStart\<close>. The usable size is at least \<open>minBlockSize\<close> when \<open>goodSize\<close>
  returns at least what it is asked for, as the Backing Allocator's interface
  requires.
\<close>

theorem allocateSlow_normal:
  assumes "sz \<le> minBlockSize a" and "passes_checks c a sz"
    and "allocate_raw al st (goodSize al (sizeofBlock c + minBlockSize a)) = (Inr mem, st')"
    and "usableSize = goodSize al (sizeofBlock c + minBlockSize a) - sizeofBlock c"
  shows "allocateSlow c al a st sz =
           (Inr (start c mem),
            a\<lparr>blocks := \<lparr>this_ptr = mem, usable = usableSize, big = False\<rparr> # blocks a,
              ptr := start c mem + sz,
              endp := start c mem + usableSize,
              totalAllocatedSize := totalAllocatedSize a + (usableSize + sizeofBlock c)\<rparr>,
            st') \<and>
         (unat (sizeofBlock c + minBlockSize a)
            \<le> unat (goodSize al (sizeofBlock c + minBlockSize a)) \<longrightarrow>
          minBlockSize a \<le> usableSize \<and> sz \<le> usableSize)"
proof -
  have eq: "allocateSlow c al a st sz =
           (Inr (start c mem),
            a\<lparr>blocks := \<lparr>this_ptr = mem, usable = usableSize, big = False\<rparr> # blocks a,
              ptr := start c mem + sz,
              endp := start c mem + usableSize,
              totalAllocatedSize := totalAllocatedSize a + (usableSize + sizeofBlock c)\<rparr>,
            st')"
    using assms by (simp add: allocateSlow_normal_eq)
  have "max sz (minBlockSize a) = minBlockSize a"
    using assms(1) by (simp add: max_def)
  with assms(2) have room: "unat (minBlockSize a) + unat (sizeofBlock c) < 2 ^ 64"
    by (simp add: passes_checks_def checked_add_def split: if_splits)
  have "minBlockSize a \<le> usableSize \<and> sz \<le> usableSize"
    if "unat (sizeofBlock c + minBlockSize a)
          \<le> unat (goodSize al (sizeofBlock c + minBlockSize a))"
  proof -
    from room that have "minBlockSize a \<le> usableSize"
      unfolding assms(4) by (rule word_usable_ge)
    with assms(1) show ?thesis by simp
  qed
  with eq show ?thesis by blast
qed

theorem allocateSlow_normal_witness:
  "(10 :: size_t) \<le> minBlockSize (Arena_init 40 0) \<and>
   passes_checks consts16 (Arena_init 40 0) 10 \<and>
   goodSize slack_alloc (sizeofBlock consts16 + minBlockSize (Arena_init 40 0)) = 64 \<and>
   allocate_raw slack_alloc 4096 64 = (Inr 4096, 4160) \<and>
   unat (sizeofBlock consts16 + minBlockSize (Arena_init 40 0)) \<le> unat (64 :: size_t) \<and>
   allocateSlow consts16 slack_alloc (Arena_init 40 0) 4096 10
   = (Inr 4112,
      \<lparr>blocks = [\<lparr>this_ptr = 4096, usable = 48, big = False\<rparr>],
        ptr = 4122, endp = 4160, totalAllocatedSize = 64, sizeLimit = 0,
        minBlockSize = 40\<rparr>, 4160) \<and>
   (40 :: size_t) \<le> 48"
  using allocateSlow_normal
    [of 10 "Arena_init 40 0" consts16 slack_alloc 4096 4096 4160 48]
  by (simp add: passes_checks_def checked_add_def fixture_defs)

text \<open>
  C8. When the Backing Allocator throws during a slow-path allocation, the call
  throws the very same exception and the arena is as before the call. More
  generally every call either throws and leaves \<open>ptr\<close>, \<open>end\<close>,
  \<open>totalAllocatedSize\<close> and the block list untouched, or returns the start of one
  new block that has been linked into the list and accounted for.
\<close>

theorem allocateSlow_backing_failure:
  "(passes_checks c a sz \<and>
    allocate_raw al st
      (if minBlockSize a < sz then sizeofBlock c + sz
       else goodSize al (sizeofBlock c + minBlockSize a)) = (Inl e, st') \<longrightarrow>
      allocateSlow c al a st sz = (Inl e, a, st')) \<and>
   (\<forall>e' a' s'. allocateSlow c al a st sz = (Inl e', a', s') \<longrightarrow> a' = a) \<and>
   (\<forall>p a' s'. allocateSlow c al a st sz = (Inr p, a', s') \<longrightarrow>
      (\<exists>b. (blocks a' = blocks a @ [b] \<or> blocks a' = b # blocks a) \<and>
           p = start c (this_ptr b) \<and>
           totalAllocatedSize a' = totalAllocatedSize a + (usable b + sizeofBlock c)))"
proof (cases "passes_checks c a sz")
  case False
  then show ?thesis by (simp add: allocateSlow_fails_eq)
next
  case pass: True
  show ?thesis
  proof (cases "minBlockSize a < sz")
    case True
    with pass show ?thesis
      by (auto simp: allocateSlow_big_eq split: prod.splits sum.splits)
  next
    case False
    then have "sz \<le> minBlockSize a" by simp
    with pass False show ?thesis
      by (auto simp: allocateSlow_normal_eq split: prod.splits sum.splits)
  qed
qed

theorem allocateSlow_backing_failure_witness:
  "passes_checks consts16 (Arena_init 4096 0) 100 \<and>
   allocate_raw failing_alloc 7 (goodSize failing_alloc (16 + 4096))
     = (Inl (other_exn ''out_of_memory''), 8) \<and>
   allocateSlow consts16 failing_alloc (Arena_init 4096 0) 7 100
     = (Inl (other_exn ''out_of_memory''), Arena_init 4096 0, 8)"
  using allocateSlow_backing_failure
    [of consts16 "Arena_init 4096 0" 100 failing_alloc 7 "other_exn ''out_of_memory''" 8]
  by (simp add: passes_checks_def checked_add_def fixture_defs)

text \<open>
  C9, as the code has it. The overflow failure and the limit failure reach the
  caller as the same exception, \<^verbatim>\<open>std::bad_alloc\<close>, with the arena and the
  allocator state as before the call: the caller can tell them from a successful
  return and not from each other.
\<close>

theorem arena_failures_are_bad_alloc:
  "(checked_add (max sz (minBlockSize a)) (sizeofBlock c) = None \<longrightarrow>
      allocateSlow c al a st sz = (Inl bad_alloc, a, st)) \<and>
   (\<forall>allocSize. checked_add (max sz (minBlockSize a)) (sizeofBlock c) = Some allocSize \<and>
      sizeLimit a \<noteq> kNoSizeLimit c \<and> sizeLimit a - totalAllocatedSize a < allocSize \<longrightarrow>
      allocateSlow c al a st sz = (Inl bad_alloc, a, st)) \<and>
   (\<forall>p. fst (allocateSlow c al a st sz) = Inr p \<longrightarrow> passes_checks c a sz)"
proof -
  have "passes_checks c a sz" if "fst (allocateSlow c al a st sz) = Inr p" for p
  proof (rule ccontr)
    assume "\<not> passes_checks c a sz"
    then have "allocateSlow c al a st sz = (Inl bad_alloc, a, st)"
      by (rule allocateSlow_fails_eq)
    with that show False by simp
  qed
  then show ?thesis by (simp add: allocateSlow_def)
qed

theorem arena_failures_are_bad_alloc_witness:
  "checked_add (max 18446744073709551615 (minBlockSize (Arena_init 4096 4000)))
     (sizeofBlock consts16) = None \<and>
   allocateSlow consts16 bump_alloc (Arena_init 4096 4000) 4096 18446744073709551615
     = (Inl bad_alloc, Arena_init 4096 4000, 4096) \<and>
   checked_add (max 100 (minBlockSize (Arena_init 4096 4000))) (sizeofBlock consts16)
     = Some 4112 \<and>
   allocateSlow consts16 bump_alloc (Arena_init 4096 4000) 4096 100
     = (Inl bad_alloc, Arena_init 4096 4000, 4096) \<and>
   passes_checks consts16 (Arena_init 4096 0) 100 \<and>
   fst (allocateSlow consts16 bump_alloc (Arena_init 4096 0) 4096 100) = Inr 4112"
  using arena_failures_are_bad_alloc
      [of 18446744073709551615 "Arena_init 4096 4000" consts16 bump_alloc 4096]
    arena_failures_are_bad_alloc [of 100 "Arena_init 4096 4000" consts16 bump_alloc 4096]
    arena_failures_are_bad_alloc [of 100 "Arena_init 4096 0" consts16 bump_alloc 4096]
  by (simp add: passes_checks_def checked_add_def allocateSlow_def Block_allocate_def
        fixture_defs)

text \<open>
  C9, as the claim states it, fails: on one arena a request that overflows and a
  request that exceeds the limit leave the caller with the same outcome.
\<close>

theorem failure_kinds_counterexample:
  "checked_add (max 18446744073709551615 (minBlockSize (Arena_init 4096 4000)))
     (sizeofBlock consts16) = None \<and>
   checked_add (max 100 (minBlockSize (Arena_init 4096 4000))) (sizeofBlock consts16)
     = Some 4112 \<and>
   sizeLimit (Arena_init 4096 4000) \<noteq> kNoSizeLimit consts16 \<and>
   sizeLimit (Arena_init 4096 4000) - totalAllocatedSize (Arena_init 4096 4000) < 4112 \<and>
   allocateSlow consts16 bump_alloc (Arena_init 4096 4000) 4096 18446744073709551615
     = allocateSlow consts16 bump_alloc (Arena_init 4096 4000) 4096 100 \<and>
   fst (allocateSlow consts16 bump_alloc (Arena_init 4096 4000) 4096 100) = Inl bad_alloc"
  by (simp add: checked_add_def allocateSlow_def fixture_defs)

text \<open>
  C10. \<open>A.merge(B)\<close> changes only A's block list and \<open>totalAllocatedSize\<close>: A's
  \<open>ptr\<close> and \<open>end\<close> are as before, and a request that the fast path served from
  A's window before the merge is served from it after the merge, at the same address.
\<close>

theorem merge_keeps_window:
  "ptr (fst (merge a b)) = ptr a \<and> endp (fst (merge a b)) = endp a \<and>
   fst (merge a b) = a\<lparr>blocks := blocks (fst (merge a b)),
                         totalAllocatedSize := totalAllocatedSize (fst (merge a b))\<rparr> \<and>
   (\<forall>n st. ptr a \<noteq> nullptr \<and> n \<le> endp a - ptr a \<longrightarrow>
      allocate c al (fst (merge a b)) st n
        = (Inr (ptr a), (fst (merge a b))\<lparr>ptr := ptr a + n\<rparr>, st) \<and>
      fst (allocate c al (fst (merge a b)) st n) = fst (allocate c al a st n))"
  by (simp add: merge_eq allocate_fast)

theorem merge_keeps_window_witness:
  "ptr \<lparr>blocks = [\<lparr>this_ptr = 4096, usable = 4096, big = False\<rparr>], ptr = 4212, endp = 8208,
        totalAllocatedSize = 4112, sizeLimit = 0, minBlockSize = 4096\<rparr> \<noteq> nullptr \<and>
   (50 :: size_t) \<le> 8208 - 4212 \<and>
   fst (allocate consts16 failing_alloc
     (fst (merge
       \<lparr>blocks = [\<lparr>this_ptr = 4096, usable = 4096, big = False\<rparr>], ptr = 4212, endp = 8208,
          totalAllocatedSize = 4112, sizeLimit = 0, minBlockSize = 4096\<rparr>
       \<lparr>blocks = [\<lparr>this_ptr = 8208, usable = 4096, big = False\<rparr>], ptr = 8234, endp = 12320,
          totalAllocatedSize = 4112, sizeLimit = 0, minBlockSize = 4096\<rparr>)) 0 50) = Inr 4212 \<and>
   ptr (fst (snd (allocate consts16 failing_alloc
     (fst (merge
       \<lparr>blocks = [\<lparr>this_ptr = 4096, usable = 4096, big = False\<rparr>], ptr = 4212, endp = 8208,
          totalAllocatedSize = 4112, sizeLimit = 0, minBlockSize = 4096\<rparr>
       \<lparr>blocks = [\<lparr>this_ptr = 8208, usable = 4096, big = False\<rparr>], ptr = 8234, endp = 12320,
          totalAllocatedSize = 4112, sizeLimit = 0, minBlockSize = 4096\<rparr>)) 0 50))) = 4262"
  using merge_keeps_window
    [of "\<lparr>blocks = [\<lparr>this_ptr = 4096, usable = 4096, big = False\<rparr>], ptr = 4212, endp = 8208,
          totalAllocatedSize = 4112, sizeLimit = 0, minBlockSize = 4096\<rparr>"
        "\<lparr>blocks = [\<lparr>this_ptr = 8208, usable = 4096, big = False\<rparr>], ptr = 8234, endp = 12320,
          totalAllocatedSize = 4112, sizeLimit = 0, minBlockSize = 4096\<rparr>"
        consts16 failing_alloc]
  by (simp add: nullptr_def)

end
